theory Spec2Isabelle
  imports Complex_Main "HOL-Library.Word"
begin

section \<open>Worker thread pool parameters of varnishd (bin/varnishd/mgt/mgt_pool.c)\<close>

text \<open>
  The file holds the table \<open>WRK_parspec\<close> of the thread pool parameters and the two
  setters \<open>tweak_thread_pool_min\<close> and \<open>tweak_thread_pool_max\<close>, which keep the bounds of
  \<open>thread_pool_min\<close>, \<open>thread_pool_max\<close> and \<open>thread_pool_reserve\<close> in step.

  Conventions of the embedding:
  \<^item> a C \<open>unsigned\<close> is a 32-bit word: \<open>*\<close> wraps and \<open>div\<close> is the unsigned division;
  \<^item> a C \<open>double\<close> holding a duration is the real number it denotes;
  \<^item> the members of \<open>struct params mgt_param\<close> the table points to are the fields of the
    record \<open>params\<close>; a \<open>priv\<close> pointer is a tag naming the member, written through with
    \<open>store_u\<close> (\<open>store_d\<close> for the durations);
  \<^item> a parameter name is a constructor of \<open>pname\<close> (the \<open>unsigned\<close> parameters) or of
    \<open>dname\<close> (the durations), so a lookup by name always finds its entry, as it does in the
    source, where every name the setters pass to \<open>MCF_ParamConf\<close> is in the table;
  \<^item> the \<open>min\<close>, \<open>max\<close> and \<open>def\<close> strings of an entry are kept as the numbers they denote
    (\<open>None\<close> for \<open>NULL\<close>): the setters print an \<open>unsigned\<close> with \<open>%u\<close> and the range check
    reads it back;
  \<^item> \<open>thread_pool_stack\<close> (\<open>tweak_bytes\<close>, all three strings \<open>NULL\<close>) is left out: no setter
    of this file reads or writes it;
  \<^item> a setter takes the state and returns its \<open>int\<close> result with the new state.
\<close>

type_synonym unsigned = "32 word"

subsection \<open>The parameter store \<open>mgt_param\<close>\<close>

record params =
  wthread_pools :: unsigned
  wthread_max :: unsigned
  wthread_min :: unsigned
  wthread_reserve :: unsigned
  wthread_stats_rate :: unsigned
  wthread_queue_limit :: unsigned
  wthread_timeout :: real
  wthread_watchdog :: real
  wthread_destroy_delay :: real
  wthread_add_delay :: real
  wthread_fail_delay :: real

datatype uptr =
    Addr_wthread_pools | Addr_wthread_max | Addr_wthread_min
  | Addr_wthread_reserve | Addr_wthread_stats_rate | Addr_wthread_queue_limit

datatype dptr =
    Addr_wthread_timeout | Addr_wthread_watchdog | Addr_wthread_destroy_delay
  | Addr_wthread_add_delay | Addr_wthread_fail_delay

fun store_u :: "uptr \<Rightarrow> unsigned \<Rightarrow> params \<Rightarrow> params" where
  "store_u Addr_wthread_pools u p = p\<lparr>wthread_pools := u\<rparr>"
| "store_u Addr_wthread_max u p = p\<lparr>wthread_max := u\<rparr>"
| "store_u Addr_wthread_min u p = p\<lparr>wthread_min := u\<rparr>"
| "store_u Addr_wthread_reserve u p = p\<lparr>wthread_reserve := u\<rparr>"
| "store_u Addr_wthread_stats_rate u p = p\<lparr>wthread_stats_rate := u\<rparr>"
| "store_u Addr_wthread_queue_limit u p = p\<lparr>wthread_queue_limit := u\<rparr>"

fun store_d :: "dptr \<Rightarrow> real \<Rightarrow> params \<Rightarrow> params" where
  "store_d Addr_wthread_timeout d p = p\<lparr>wthread_timeout := d\<rparr>"
| "store_d Addr_wthread_watchdog d p = p\<lparr>wthread_watchdog := d\<rparr>"
| "store_d Addr_wthread_destroy_delay d p = p\<lparr>wthread_destroy_delay := d\<rparr>"
| "store_d Addr_wthread_add_delay d p = p\<lparr>wthread_add_delay := d\<rparr>"
| "store_d Addr_wthread_fail_delay d p = p\<lparr>wthread_fail_delay := d\<rparr>"

subsection \<open>The table \<open>WRK_parspec\<close>\<close>

datatype pname =
    thread_pools | thread_pool_max | thread_pool_min
  | thread_pool_reserve | thread_stats_rate | thread_queue_limit

datatype dname =
    thread_pool_timeout | thread_pool_watchdog | thread_pool_destroy_delay
  | thread_pool_add_delay | thread_pool_fail_delay

text \<open>The \<open>func\<close> member: which setter an entry of the table names.\<close>

datatype tweak_u = Tweak_uint | Tweak_thread_pool_min | Tweak_thread_pool_max

datatype tweak_d = Tweak_timeout

text \<open>
  \<open>struct parspec\<close>, with the members the setters use: \<open>func\<close>, \<open>priv\<close>, \<open>min\<close>, \<open>max\<close> and
  \<open>def\<close> (the last three suffixed, \<open>min\<close> and \<open>max\<close> being constants of HOL).
\<close>

record ('f, 'p, 'v) parspec =
  func :: 'f
  priv :: 'p
  min_p :: "'v option"
  max_p :: "'v option"
  def_p :: "'v option"

type_synonym uparspec = "(tweak_u, uptr, unsigned) parspec"
type_synonym dparspec = "(tweak_d, dptr, real) parspec"

text \<open>The initialiser of \<open>WRK_parspec\<close>, entry by entry.\<close>

fun WRK_parspec_u :: "pname \<Rightarrow> uparspec" where
  "WRK_parspec_u thread_pools =
     \<lparr>func = Tweak_uint, priv = Addr_wthread_pools,
      min_p = Some 1, max_p = None, def_p = Some 2\<rparr>"
| "WRK_parspec_u thread_pool_max =
     \<lparr>func = Tweak_thread_pool_max, priv = Addr_wthread_max,
      min_p = None, max_p = None, def_p = Some 5000\<rparr>"
| "WRK_parspec_u thread_pool_min =
     \<lparr>func = Tweak_thread_pool_min, priv = Addr_wthread_min,
      min_p = Some 5, max_p = None, def_p = Some 100\<rparr>"
| "WRK_parspec_u thread_pool_reserve =
     \<lparr>func = Tweak_uint, priv = Addr_wthread_reserve,
      min_p = None, max_p = None, def_p = Some 0\<rparr>"
| "WRK_parspec_u thread_stats_rate =
     \<lparr>func = Tweak_uint, priv = Addr_wthread_stats_rate,
      min_p = Some 0, max_p = None, def_p = Some 10\<rparr>"
| "WRK_parspec_u thread_queue_limit =
     \<lparr>func = Tweak_uint, priv = Addr_wthread_queue_limit,
      min_p = Some 0, max_p = None, def_p = Some 20\<rparr>"

fun WRK_parspec_d :: "dname \<Rightarrow> dparspec" where
  "WRK_parspec_d thread_pool_timeout =
     \<lparr>func = Tweak_timeout, priv = Addr_wthread_timeout,
      min_p = Some 10, max_p = None, def_p = Some 300\<rparr>"
| "WRK_parspec_d thread_pool_watchdog =
     \<lparr>func = Tweak_timeout, priv = Addr_wthread_watchdog,
      min_p = Some (1 / 10), max_p = None, def_p = Some 60\<rparr>"
| "WRK_parspec_d thread_pool_destroy_delay =
     \<lparr>func = Tweak_timeout, priv = Addr_wthread_destroy_delay,
      min_p = Some (1 / 100), max_p = None, def_p = Some 1\<rparr>"
| "WRK_parspec_d thread_pool_add_delay =
     \<lparr>func = Tweak_timeout, priv = Addr_wthread_add_delay,
      min_p = Some 0, max_p = None, def_p = Some 0\<rparr>"
| "WRK_parspec_d thread_pool_fail_delay =
     \<lparr>func = Tweak_timeout, priv = Addr_wthread_fail_delay,
      min_p = Some (10 / 1000), max_p = None, def_p = Some (2 / 10)\<rparr>"

subsection \<open>The state: the store and the table\<close>

record state =
  mgt_param :: params
  parspec_u :: "pname \<Rightarrow> uparspec"
  parspec_d :: "dname \<Rightarrow> dparspec"

text \<open>The table as the file declares it, over a zeroed \<open>mgt_param\<close> (a C global).\<close>

definition zero_params :: params where
  "zero_params =
     \<lparr>wthread_pools = 0, wthread_max = 0, wthread_min = 0, wthread_reserve = 0,
      wthread_stats_rate = 0, wthread_queue_limit = 0,
      wthread_timeout = 0, wthread_watchdog = 0, wthread_destroy_delay = 0,
      wthread_add_delay = 0, wthread_fail_delay = 0\<rparr>"

definition table_state :: state where
  "table_state =
     \<lparr>mgt_param = zero_params, parspec_u = WRK_parspec_u, parspec_d = WRK_parspec_d\<rparr>"

subsection \<open>The helpers of mgt\_param.c the file calls\<close>

text \<open>
  Modelled from the spec: the range check of the typed setters, which "reject
  out-of-range values". A value is out of range when it is below the entry's minimum or
  above its maximum; a \<open>NULL\<close> bound checks nothing.
\<close>

definition out_of_range :: "('v::linorder) option \<Rightarrow> 'v option \<Rightarrow> 'v \<Rightarrow> bool" where
  "out_of_range lo hi v =
     ((case lo of None \<Rightarrow> False | Some l \<Rightarrow> v < l) \<or>
      (case hi of None \<Rightarrow> False | Some h \<Rightarrow> h < v))"

text \<open>
  Modelled from the spec: \<open>tweak_uint\<close> is declared in mgt/mgt\_param.h and defined
  outside this file. The spec: the parameters live in "a key\<rightarrow>value store with typed
  setters that reject out-of-range values"; a rejected update is "rejected synchronously
  at the update call; the Parameter Set is left unchanged". The argument is the typed
  value; \<open>par\<close> points to the entry, whose bounds are read at the call; an accepted value
  is stored through \<open>par->priv\<close>. The result is 0 on success and \<open>-1\<close> on rejection.
\<close>

definition tweak_uint :: "pname \<Rightarrow> unsigned \<Rightarrow> state \<Rightarrow> int \<times> state" where
  "tweak_uint par arg s =
     (let p = parspec_u s par in
      if out_of_range (min_p p) (max_p p) arg then (- 1, s)
      else (0, s\<lparr>mgt_param := store_u (priv p) arg (mgt_param s)\<rparr>))"

text \<open>
  Modelled from the spec: \<open>tweak_timeout\<close> is defined outside this file; it is the typed
  setter of a duration, with the same range check on the entry's bounds.
\<close>

definition tweak_timeout :: "dname \<Rightarrow> real \<Rightarrow> state \<Rightarrow> int \<times> state" where
  "tweak_timeout par arg s =
     (let p = parspec_d s par in
      if out_of_range (min_p p) (max_p p) arg then (- 1, s)
      else (0, s\<lparr>mgt_param := store_d (priv p) arg (mgt_param s)\<rparr>))"

text \<open>The selectors \<open>MCF_MINIMUM\<close> and \<open>MCF_MAXIMUM\<close> the setters pass to \<open>MCF_ParamConf\<close>.\<close>

datatype mcf_which_e = MCF_MINIMUM | MCF_MAXIMUM

text \<open>
  Modelled from the spec: \<open>MCF_ParamConf\<close> is defined outside this file. The spec:
  changing \<open>min_threads\<close> "recomputes \<open>max_threads\<close>'s floor and \<open>reserve\<close>'s ceiling", so
  \<open>MCF_ParamConf which name v\<close> replaces the named entry's minimum (\<open>MCF_MINIMUM\<close>) or
  maximum (\<open>MCF_MAXIMUM\<close>) by \<open>v\<close> and touches nothing else.
\<close>

fun MCF_ParamConf :: "mcf_which_e \<Rightarrow> pname \<Rightarrow> unsigned \<Rightarrow> state \<Rightarrow> state" where
  "MCF_ParamConf MCF_MINIMUM param v s =
     s\<lparr>parspec_u := (parspec_u s)(param := (parspec_u s param)\<lparr>min_p := Some v\<rparr>)\<rparr>"
| "MCF_ParamConf MCF_MAXIMUM param v s =
     s\<lparr>parspec_u := (parspec_u s)(param := (parspec_u s param)\<lparr>max_p := Some v\<rparr>)\<rparr>"

subsection \<open>The setters of the file\<close>

text \<open>
  \<open>tweak_thread_pool_min\<close>: when \<open>tweak_uint\<close> fails, return \<open>-1\<close>; otherwise set the minimum
  of \<open>thread_pool_max\<close> to \<open>mgt_param.wthread_min\<close> and the maximum of
  \<open>thread_pool_reserve\<close> to \<open>mgt_param.wthread_min * 950 / 1000\<close>, and return 0.
\<close>

definition tweak_thread_pool_min :: "pname \<Rightarrow> unsigned \<Rightarrow> state \<Rightarrow> int \<times> state" where
  "tweak_thread_pool_min par arg s =
     (case tweak_uint par arg s of (rc, s1) \<Rightarrow>
        if rc \<noteq> 0 then (- 1, s1)
        else
          let s2 = MCF_ParamConf MCF_MINIMUM thread_pool_max (wthread_min (mgt_param s1)) s1;
              s3 = MCF_ParamConf MCF_MAXIMUM thread_pool_reserve
                     (wthread_min (mgt_param s2) * 950 div 1000) s2
          in (0, s3))"

text \<open>
  \<open>tweak_thread_pool_max\<close>: when \<open>tweak_uint\<close> fails, return \<open>-1\<close>; otherwise set the maximum
  of \<open>thread_pool_min\<close> to \<open>mgt_param.wthread_max\<close>, and return 0.
\<close>

definition tweak_thread_pool_max :: "pname \<Rightarrow> unsigned \<Rightarrow> state \<Rightarrow> int \<times> state" where
  "tweak_thread_pool_max par arg s =
     (case tweak_uint par arg s of (rc, s1) \<Rightarrow>
        if rc \<noteq> 0 then (- 1, s1)
        else (0, MCF_ParamConf MCF_MAXIMUM thread_pool_min (wthread_max (mgt_param s1)) s1))"

subsection \<open>Updating a parameter by name\<close>

text \<open>The call through \<open>par->func\<close>: each tag stands for its setter.\<close>

fun call_u :: "tweak_u \<Rightarrow> pname \<Rightarrow> unsigned \<Rightarrow> state \<Rightarrow> int \<times> state" where
  "call_u Tweak_uint = tweak_uint"
| "call_u Tweak_thread_pool_min = tweak_thread_pool_min"
| "call_u Tweak_thread_pool_max = tweak_thread_pool_max"

fun call_d :: "tweak_d \<Rightarrow> dname \<Rightarrow> real \<Rightarrow> state \<Rightarrow> int \<times> state" where
  "call_d Tweak_timeout = tweak_timeout"

text \<open>
  Modelled from the spec: the update call of the key\<rightarrow>value store is outside this file.
  It finds the entry of the name and calls the entry's \<open>func\<close> on the entry and the value.
\<close>

definition param_set_u :: "pname \<Rightarrow> unsigned \<Rightarrow> state \<Rightarrow> int \<times> state" where
  "param_set_u name arg s = call_u (func (parspec_u s name)) name arg s"

text \<open>
  Modelled from the spec: the same update call, for a parameter that holds a duration.
\<close>

definition param_set_d :: "dname \<Rightarrow> real \<Rightarrow> state \<Rightarrow> int \<times> state" where
  "param_set_d name arg s = call_d (func (parspec_d s name)) name arg s"

text \<open>A sequence of update requests; a rejected one leaves the state it returns.\<close>

datatype update = Set_u pname unsigned | Set_d dname real

fun apply_update :: "update \<Rightarrow> state \<Rightarrow> state" where
  "apply_update (Set_u name arg) s = snd (param_set_u name arg s)"
| "apply_update (Set_d name arg) s = snd (param_set_d name arg s)"

fun run :: "update list \<Rightarrow> state \<Rightarrow> state" where
  "run [] s = s"
| "run (u # us) s = run us (apply_update u s)"

subsection \<open>Invariants, and the state after the defaults\<close>

definition pnames :: "pname list" where
  "pnames = [thread_pools, thread_pool_max, thread_pool_min,
             thread_pool_reserve, thread_stats_rate, thread_queue_limit]"

definition dnames :: "dname list" where
  "dnames = [thread_pool_timeout, thread_pool_watchdog, thread_pool_destroy_delay,
             thread_pool_add_delay, thread_pool_fail_delay]"

text \<open>
  \<open>table_ok\<close>: the state still has the table of the file in everything no setter of the
  file rewrites. Each entry has its \<open>func\<close> and \<open>priv\<close>; \<open>thread_pools\<close>, \<open>thread_pool_min\<close>
  and \<open>thread_pool_reserve\<close> have their static minimum (\<open>"1"\<close>, \<open>"5"\<close>, \<open>NULL\<close>); the
  entries of the durations are as declared. The maximum of \<open>thread_pools\<close> is left open
  (the table says it is defined in mgt\_param.c), and so are the three bounds the
  setters maintain.
\<close>

definition table_ok :: "state \<Rightarrow> bool" where
  "table_ok s \<longleftrightarrow>
     list_all (\<lambda>n. func (parspec_u s n) = func (WRK_parspec_u n) \<and>
                    priv (parspec_u s n) = priv (WRK_parspec_u n)) pnames \<and>
     list_all (\<lambda>n. min_p (parspec_u s n) = min_p (WRK_parspec_u n))
       [thread_pools, thread_pool_min, thread_pool_reserve] \<and>
     list_all (\<lambda>n. parspec_d s n = WRK_parspec_d n) dnames"

text \<open>
  \<open>bounds_track\<close>: the minimum of \<open>thread_pool_max\<close> is the stored \<open>wthread_min\<close> and the
  maximum of \<open>thread_pool_min\<close> is the stored \<open>wthread_max\<close>, as each setter leaves them.
\<close>

definition bounds_track :: "state \<Rightarrow> bool" where
  "bounds_track s \<longleftrightarrow>
     min_p (parspec_u s thread_pool_max) = Some (wthread_min (mgt_param s)) \<and>
     max_p (parspec_u s thread_pool_min) = Some (wthread_max (mgt_param s))"

text \<open>\<open>sized\<close>: the stored sizes are in order, \<open>5 \<le> wthread_min \<le> wthread_max\<close>.\<close>

definition sized :: "state \<Rightarrow> bool" where
  "sized s \<longleftrightarrow>
     5 \<le> wthread_min (mgt_param s) \<and>
     wthread_min (mgt_param s) \<le> wthread_max (mgt_param s)"

definition pool_inv :: "state \<Rightarrow> bool" where
  "pool_inv s \<longleftrightarrow> table_ok s \<and> bounds_track s \<and> sized s"

text \<open>
  The state reached from the table by setting every parameter to its \<open>def\<close> value through
  its setter, in the order of the table.
\<close>

definition defaults :: "update list" where
  "defaults =
     [Set_u thread_pools 2, Set_u thread_pool_max 5000, Set_u thread_pool_min 100,
      Set_u thread_pool_reserve 0,
      Set_d thread_pool_timeout 300, Set_d thread_pool_watchdog 60,
      Set_d thread_pool_destroy_delay 1, Set_d thread_pool_add_delay 0,
      Set_d thread_pool_fail_delay (2 / 10),
      Set_u thread_stats_rate 10, Set_u thread_queue_limit 20]"

definition defaults_state :: state where
  "defaults_state = run defaults table_state"

text \<open>The ceiling of the reserve for a minimum \<open>m\<close>: \<open>m * 950 / 1000\<close> on \<open>unsigned\<close>.\<close>

definition reserve_ceiling :: "unsigned \<Rightarrow> unsigned" where
  "reserve_ceiling m = m * 950 div 1000"

section \<open>Properties\<close>

subsection \<open>What each update does in a state that has the table\<close>

lemmas setter_defs = param_set_u_def param_set_d_def tweak_uint_def tweak_timeout_def
  tweak_thread_pool_min_def tweak_thread_pool_max_def

lemma table_ok_u:
  "table_ok s \<Longrightarrow> func (parspec_u s n) = func (WRK_parspec_u n) \<and>
     priv (parspec_u s n) = priv (WRK_parspec_u n)"
  by (cases n) (simp_all add: table_ok_def pnames_def)

lemma table_ok_min:
  "table_ok s \<Longrightarrow> min_p (parspec_u s thread_pools) = Some 1 \<and>
     min_p (parspec_u s thread_pool_min) = Some 5 \<and>
     min_p (parspec_u s thread_pool_reserve) = None"
  by (simp add: table_ok_def)

lemma table_ok_d: "table_ok s \<Longrightarrow> parspec_d s n = WRK_parspec_d n"
  by (cases n) (simp_all add: table_ok_def dnames_def)

lemma set_plain:
  assumes "table_ok s" and "func (WRK_parspec_u n) = Tweak_uint"
  shows "param_set_u n v s =
     (if out_of_range (min_p (parspec_u s n)) (max_p (parspec_u s n)) v then (- 1, s)
      else (0, s\<lparr>mgt_param := store_u (priv (WRK_parspec_u n)) v (mgt_param s)\<rparr>))"
  using assms table_ok_u [of s n] by (simp add: param_set_u_def tweak_uint_def Let_def)

lemma set_min:
  assumes "table_ok s"
  shows "param_set_u thread_pool_min v s =
     (if out_of_range (Some 5) (max_p (parspec_u s thread_pool_min)) v then (- 1, s)
      else (0, s\<lparr>mgt_param := (mgt_param s)\<lparr>wthread_min := v\<rparr>,
                 parspec_u := (parspec_u s)
                   (thread_pool_max := (parspec_u s thread_pool_max)\<lparr>min_p := Some v\<rparr>,
                    thread_pool_reserve :=
                      (parspec_u s thread_pool_reserve)\<lparr>max_p := Some (reserve_ceiling v)\<rparr>)\<rparr>))"
  using assms table_ok_u [of s thread_pool_min] table_ok_min [of s]
  by (simp add: setter_defs Let_def reserve_ceiling_def)

lemma set_max:
  assumes "table_ok s"
  shows "param_set_u thread_pool_max v s =
     (if out_of_range (min_p (parspec_u s thread_pool_max))
           (max_p (parspec_u s thread_pool_max)) v then (- 1, s)
      else (0, s\<lparr>mgt_param := (mgt_param s)\<lparr>wthread_max := v\<rparr>,
                 parspec_u := (parspec_u s)
                   (thread_pool_min := (parspec_u s thread_pool_min)\<lparr>max_p := Some v\<rparr>)\<rparr>))"
  using assms table_ok_u [of s thread_pool_max]
  by (simp add: setter_defs Let_def)

lemma set_d:
  assumes "table_ok s"
  shows "param_set_d n v s =
     (if out_of_range (min_p (WRK_parspec_d n)) None v then (- 1, s)
      else (0, s\<lparr>mgt_param := store_d (priv (WRK_parspec_d n)) v (mgt_param s)\<rparr>))"
  using table_ok_d [OF assms, of n] by (cases n) (simp_all add: setter_defs Let_def)

lemma table_ok_set_u: "table_ok s \<Longrightarrow> table_ok (snd (param_set_u n v s))"
  by (cases n)
     (simp_all add: set_plain set_min set_max,
      simp_all add: table_ok_def pnames_def dnames_def)

lemma table_ok_set_d: "table_ok s \<Longrightarrow> table_ok (snd (param_set_d n v s))"
  by (simp add: set_d) (simp add: table_ok_def pnames_def dnames_def)

lemma bounds_track_set_u:
  "table_ok s \<Longrightarrow> bounds_track s \<Longrightarrow> bounds_track (snd (param_set_u n v s))"
  by (cases n) (simp_all add: set_plain set_min set_max, simp_all add: bounds_track_def)

lemma bounds_track_set_d:
  "table_ok s \<Longrightarrow> bounds_track s \<Longrightarrow> bounds_track (snd (param_set_d n v s))"
  by (cases n) (simp_all add: set_d, simp_all add: bounds_track_def)

lemma one_le_word: "1 \<le> (v::unsigned) \<longleftrightarrow> v \<noteq> 0"
  using word_less_1 [of v] by (simp only: linorder_not_less [symmetric])

lemma sized_set_u:
  "table_ok s \<Longrightarrow> bounds_track s \<Longrightarrow> sized s \<Longrightarrow> sized (snd (param_set_u n v s))"
  using table_ok_min [of s]
  by (cases n)
     (simp_all add: set_plain set_min set_max,
      auto simp add: bounds_track_def sized_def out_of_range_def split: option.splits)

lemma sized_set_d:
  "table_ok s \<Longrightarrow> sized s \<Longrightarrow> sized (snd (param_set_d n v s))"
  by (cases n) (simp_all add: set_d, simp_all add: sized_def)

subsection \<open>The invariant through a sequence of updates\<close>

lemma pool_inv_apply_update: "pool_inv s \<Longrightarrow> pool_inv (apply_update u s)"
  by (cases u)
     (simp_all add: pool_inv_def table_ok_set_u table_ok_set_d bounds_track_set_u
        bounds_track_set_d sized_set_u sized_set_d)

lemma pool_inv_run: "pool_inv s \<Longrightarrow> pool_inv (run us s)"
  by (induction us arbitrary: s) (simp_all add: pool_inv_apply_update)

lemma defaults_state_eq:
  "defaults_state =
     \<lparr>mgt_param =
        \<lparr>wthread_pools = 2, wthread_max = 5000, wthread_min = 100, wthread_reserve = 0,
         wthread_stats_rate = 10, wthread_queue_limit = 20,
         wthread_timeout = 300, wthread_watchdog = 60, wthread_destroy_delay = 1,
         wthread_add_delay = 0, wthread_fail_delay = 2 / 10\<rparr>,
      parspec_u = WRK_parspec_u
        (thread_pool_min := (WRK_parspec_u thread_pool_min)\<lparr>max_p := Some 5000\<rparr>,
         thread_pool_max := (WRK_parspec_u thread_pool_max)\<lparr>min_p := Some 100\<rparr>,
         thread_pool_reserve := (WRK_parspec_u thread_pool_reserve)\<lparr>max_p := Some 95\<rparr>),
      parspec_d = WRK_parspec_d\<rparr>"
  by (simp add: defaults_state_def defaults_def table_state_def zero_params_def
        setter_defs out_of_range_def Let_def)

lemma pool_inv_defaults_state: "pool_inv defaults_state"
  by (simp add: defaults_state_eq pool_inv_def table_ok_def bounds_track_def sized_def
        pnames_def dnames_def)

lemma pools_apply_update:
  "table_ok s \<Longrightarrow>
     wthread_pools (mgt_param (apply_update u s)) = wthread_pools (mgt_param s) \<or>
     1 \<le> wthread_pools (mgt_param (apply_update u s))"
proof (cases u)
  case (Set_u n v)
  assume "table_ok s"
  then show ?thesis
    using Set_u table_ok_min [of s]
    by (cases n)
       (simp_all add: set_plain set_min set_max,
        auto simp add: out_of_range_def one_le_word split: option.splits)
next
  case (Set_d n v)
  assume "table_ok s"
  then show ?thesis using Set_d by (cases n) (simp_all add: set_d)
qed

lemma table_ok_apply_update: "table_ok s \<Longrightarrow> table_ok (apply_update u s)"
  by (cases u) (simp_all add: table_ok_set_u table_ok_set_d)

lemma pools_run:
  "table_ok s \<Longrightarrow>
     wthread_pools (mgt_param (run us s)) = wthread_pools (mgt_param s) \<or>
     1 \<le> wthread_pools (mgt_param (run us s))"
proof (induction us arbitrary: s)
  case Nil
  then show ?case by simp
next
  case (Cons u us)
  have t: "table_ok (apply_update u s)"
    using Cons.prems by (rule table_ok_apply_update)
  show ?case
    using Cons.IH [OF t] pools_apply_update [OF Cons.prems, of u] by auto
qed

lemma min_apply_update:
  "table_ok s \<Longrightarrow>
     wthread_min (mgt_param (apply_update u s)) = wthread_min (mgt_param s) \<or>
     5 \<le> wthread_min (mgt_param (apply_update u s))"
proof (cases u)
  case (Set_u n v)
  assume "table_ok s"
  then show ?thesis
    using Set_u
    by (cases n)
       (simp_all add: set_plain set_min set_max, auto simp add: out_of_range_def)
next
  case (Set_d n v)
  assume "table_ok s"
  then show ?thesis using Set_d by (cases n) (simp_all add: set_d)
qed

lemma min_run:
  "table_ok s \<Longrightarrow>
     wthread_min (mgt_param (run us s)) = wthread_min (mgt_param s) \<or>
     5 \<le> wthread_min (mgt_param (run us s))"
proof (induction us arbitrary: s)
  case Nil
  then show ?case by simp
next
  case (Cons u us)
  have t: "table_ok (apply_update u s)"
    using Cons.prems by (rule table_ok_apply_update)
  show ?case
    using Cons.IH [OF t] min_apply_update [OF Cons.prems, of u] by auto
qed

subsection \<open>The arithmetic of the ceiling\<close>

lemma unat_reserve_ceiling:
  "unat (reserve_ceiling m) = unat m * 950 mod 2 ^ 32 div 1000"
  by (simp add: reserve_ceiling_def unat_div unat_word_ariths)

lemma floor_95: "\<lfloor>0.95 * real n\<rfloor> = int (n * 950 div 1000)"
proof -
  have "0.95 * real n = real (n * 950) / real 1000" by simp
  then have "\<lfloor>0.95 * real n\<rfloor> = \<lfloor>real (n * 950) / real 1000\<rfloor>" by simp
  also have "\<dots> = int (n * 950 div 1000)" by (rule floor_divide_of_nat_eq)
  finally show ?thesis .
qed

subsection \<open>The state after the defaults\<close>

lemma table_ok_defaults_state: "table_ok defaults_state"
  using pool_inv_defaults_state by (simp add: pool_inv_def)

lemma bounds_track_defaults_state: "bounds_track defaults_state"
  using pool_inv_defaults_state by (simp add: pool_inv_def)

lemma sized_defaults_state: "sized defaults_state"
  using pool_inv_defaults_state by (simp add: pool_inv_def)

lemma set_u_result:
  "fst (param_set_u n v s) = 0 \<Longrightarrow> param_set_u n v s = (0, snd (param_set_u n v s))"
  by (simp add: prod_eq_iff)

lemma set_min_defaults:
  "5 \<le> v \<Longrightarrow> v \<le> 5000 \<Longrightarrow> param_set_u thread_pool_min v defaults_state =
     (0, defaults_state\<lparr>mgt_param := (mgt_param defaults_state)\<lparr>wthread_min := v\<rparr>,
           parspec_u := (parspec_u defaults_state)
             (thread_pool_max := (parspec_u defaults_state thread_pool_max)\<lparr>min_p := Some v\<rparr>,
              thread_pool_reserve :=
                (parspec_u defaults_state thread_pool_reserve)\<lparr>max_p := Some (reserve_ceiling v)\<rparr>)\<rparr>)"
  by (simp add: set_min [OF table_ok_defaults_state] out_of_range_def not_less)
     (simp add: defaults_state_eq)

lemma set_reserve_defaults:
  "v \<le> 95 \<Longrightarrow> param_set_u thread_pool_reserve v defaults_state =
     (0, defaults_state\<lparr>mgt_param := (mgt_param defaults_state)\<lparr>wthread_reserve := v\<rparr>\<rparr>)"
  by (simp add: set_plain [OF table_ok_defaults_state] out_of_range_def not_less)
     (simp add: defaults_state_eq)

subsection \<open>The sizes and their bounds\<close>

text \<open>
  C1, as the code has it. In a state with the table where each of the two bounds tracks
  the other size (\<open>bounds_track\<close>, as both setters leave it), every successful update of
  \<open>thread_pool_min\<close> or \<open>thread_pool_max\<close> through its setter ends with
  \<open>wthread_min \<le> wthread_max\<close>, the minimum of \<open>thread_pool_max\<close> at the stored
  \<open>wthread_min\<close> and the maximum of \<open>thread_pool_min\<close> at the stored \<open>wthread_max\<close>. A
  successful update of \<open>thread_pool_min\<close> to \<open>v\<close> also sets the maximum of
  \<open>thread_pool_reserve\<close> to \<open>v * 950 / 1000\<close>; the stored \<open>wthread_reserve\<close> is not changed.
\<close>

theorem min_max_stay_ordered:
  assumes "table_ok s" and "bounds_track s"
    and "n = thread_pool_min \<or> n = thread_pool_max"
    and "param_set_u n v s = (0, s')"
  shows "wthread_min (mgt_param s') \<le> wthread_max (mgt_param s') \<and>
         min_p (parspec_u s' thread_pool_max) = Some (wthread_min (mgt_param s')) \<and>
         max_p (parspec_u s' thread_pool_min) = Some (wthread_max (mgt_param s')) \<and>
         (n = thread_pool_min \<longrightarrow>
            wthread_min (mgt_param s') = v \<and>
            max_p (parspec_u s' thread_pool_reserve) = Some (reserve_ceiling v) \<and>
            wthread_reserve (mgt_param s') = wthread_reserve (mgt_param s)) \<and>
         (n = thread_pool_max \<longrightarrow> wthread_max (mgt_param s') = v)"
  using assms
  by (auto simp add: set_min set_max bounds_track_def out_of_range_def split: if_splits)

text \<open>
  C1 as stated fails in its last part: with the reserve at 95 under a minimum of 100,
  lowering the minimum to 10 succeeds and leaves the stored reserve at 95, above
  \<open>0.95 * 10\<close>.
\<close>

theorem reserve_not_clamped_counterexample:
  "let s = snd (param_set_u thread_pool_reserve 95 defaults_state);
       s' = snd (param_set_u thread_pool_min 10 s) in
     fst (param_set_u thread_pool_reserve 95 defaults_state) = 0 \<and>
     fst (param_set_u thread_pool_min 10 s) = 0 \<and>
     wthread_min (mgt_param s') = 10 \<and>
     wthread_reserve (mgt_param s') = 95 \<and>
     max_p (parspec_u s' thread_pool_reserve) = Some 9 \<and>
     \<not> real (unat (wthread_reserve (mgt_param s')))
         \<le> 0.95 * real (unat (wthread_min (mgt_param s')))"
proof -
  have t: "table_ok (snd (param_set_u thread_pool_reserve 95 defaults_state))"
    by (rule table_ok_set_u [OF table_ok_defaults_state])
  show ?thesis
    by (simp add: Let_def set_min [OF t] out_of_range_def reserve_ceiling_def)
       (simp add: set_reserve_defaults, simp add: defaults_state_eq)
qed

text \<open>
  C1 at the defaults: lowering \<open>thread_pool_min\<close> to 10, and lowering \<open>thread_pool_max\<close>
  to 200.
\<close>

theorem min_max_stay_ordered_witness:
  "let s' = snd (param_set_u thread_pool_min 10 defaults_state);
       s'' = snd (param_set_u thread_pool_max 200 defaults_state) in
     table_ok defaults_state \<and> bounds_track defaults_state \<and>
     fst (param_set_u thread_pool_min 10 defaults_state) = 0 \<and>
     wthread_min (mgt_param s') \<le> wthread_max (mgt_param s') \<and>
     wthread_min (mgt_param s') = 10 \<and>
     min_p (parspec_u s' thread_pool_max) = Some 10 \<and>
     max_p (parspec_u s' thread_pool_reserve) = Some 9 \<and>
     fst (param_set_u thread_pool_max 200 defaults_state) = 0 \<and>
     wthread_min (mgt_param s'') \<le> wthread_max (mgt_param s'') \<and>
     wthread_max (mgt_param s'') = 200 \<and>
     max_p (parspec_u s'' thread_pool_min) = Some 200"
proof -
  have f: "fst (param_set_u thread_pool_min 10 defaults_state) = 0"
    by (simp add: set_min_defaults)
  have g: "fst (param_set_u thread_pool_max 200 defaults_state) = 0"
    by (simp add: set_max [OF table_ok_defaults_state] out_of_range_def)
       (simp add: defaults_state_eq)
  have c: "reserve_ceiling 10 = 9"
    by (simp add: reserve_ceiling_def)
  show ?thesis
    using min_max_stay_ordered [OF table_ok_defaults_state bounds_track_defaults_state _
        set_u_result [OF f]]
      min_max_stay_ordered [OF table_ok_defaults_state bounds_track_defaults_state _
        set_u_result [OF g]]
      f g c table_ok_defaults_state bounds_track_defaults_state
    by (auto simp add: Let_def)
qed

subsection \<open>Rejected updates\<close>

text \<open>
  C2. When the range validation \<open>tweak_uint\<close> of an update of \<open>thread_pool_min\<close> or
  \<open>thread_pool_max\<close> fails, the setter returns \<open>-1\<close> and the state is the one before the
  call: the stored value and every bound, the minimum of \<open>thread_pool_max\<close>, the maximum
  of \<open>thread_pool_reserve\<close> and the maximum of \<open>thread_pool_min\<close> among them. A setter
  that has changed a bound has had its validation succeed.
\<close>

theorem rejected_update_changes_nothing:
  "(fst (tweak_uint par arg s) \<noteq> 0 \<longrightarrow>
      tweak_thread_pool_min par arg s = (- 1, s) \<and>
      tweak_thread_pool_max par arg s = (- 1, s)) \<and>
   (parspec_u (snd (tweak_thread_pool_min par arg s)) \<noteq> parspec_u s \<or>
    parspec_u (snd (tweak_thread_pool_max par arg s)) \<noteq> parspec_u s \<longrightarrow>
      fst (tweak_uint par arg s) = 0)"
  by (auto simp add: tweak_thread_pool_min_def tweak_thread_pool_max_def tweak_uint_def Let_def
        split: if_splits)

text \<open>
  C2 at the defaults: 3 is below the minimum 5 of \<open>thread_pool_min\<close>, 99 is below the
  minimum 100 of \<open>thread_pool_max\<close>; setting \<open>thread_pool_min\<close> to 10 changes a bound.
\<close>

theorem rejected_update_changes_nothing_witness:
  "fst (tweak_uint thread_pool_min 3 defaults_state) \<noteq> 0 \<and>
   tweak_thread_pool_min thread_pool_min 3 defaults_state = (- 1, defaults_state) \<and>
   fst (tweak_uint thread_pool_max 99 defaults_state) \<noteq> 0 \<and>
   tweak_thread_pool_max thread_pool_max 99 defaults_state = (- 1, defaults_state) \<and>
   parspec_u (snd (tweak_thread_pool_min thread_pool_min 10 defaults_state))
     \<noteq> parspec_u defaults_state \<and>
   fst (tweak_uint thread_pool_min 10 defaults_state) = 0"
proof -
  have a: "fst (tweak_uint thread_pool_min 3 defaults_state) \<noteq> 0"
    by (simp add: tweak_uint_def out_of_range_def defaults_state_eq)
  have b: "fst (tweak_uint thread_pool_max 99 defaults_state) \<noteq> 0"
    by (simp add: tweak_uint_def out_of_range_def defaults_state_eq)
  have "min_p (parspec_u (snd (tweak_thread_pool_min thread_pool_min 10 defaults_state))
          thread_pool_max) = Some 10"
    by (simp add: tweak_thread_pool_min_def tweak_uint_def out_of_range_def defaults_state_eq)
  moreover have "min_p (parspec_u defaults_state thread_pool_max) = Some 100"
    by (simp add: defaults_state_eq)
  ultimately have c: "parspec_u (snd (tweak_thread_pool_min thread_pool_min 10 defaults_state))
     \<noteq> parspec_u defaults_state"
    by auto
  show ?thesis
    using rejected_update_changes_nothing [of thread_pool_min 3 defaults_state]
      rejected_update_changes_nothing [of thread_pool_max 99 defaults_state]
      rejected_update_changes_nothing [of thread_pool_min 10 defaults_state] a b c
    by simp
qed

subsection \<open>The reserve\<close>

text \<open>
  C3, as the code has it. The setter of \<open>thread_pool_reserve\<close> checks the value against
  the ceiling only: the table gives the entry no minimum (\<open>NULL\<close>). A value above the
  ceiling is rejected and the state kept; every other value, from 0 up, is accepted and
  stored as it is. 0, the default, is always accepted.
\<close>

theorem reserve_has_no_floor:
  assumes "table_ok s"
  shows "param_set_u thread_pool_reserve r s =
           (if (case max_p (parspec_u s thread_pool_reserve) of
                  None \<Rightarrow> False | Some c \<Rightarrow> c < r)
            then (- 1, s)
            else (0, s\<lparr>mgt_param := (mgt_param s)\<lparr>wthread_reserve := r\<rparr>\<rparr>)) \<and>
         fst (param_set_u thread_pool_reserve 0 s) = 0"
  using assms table_ok_min [of s]
  by (simp add: set_plain out_of_range_def split: option.splits)

text \<open>
  C3 as stated fails: at the defaults a reserve of 3 is a valid update, and the stored
  reserve is then 3, below 5.
\<close>

theorem reserve_below_five_counterexample:
  "fst (param_set_u thread_pool_reserve 3 defaults_state) = 0 \<and>
   wthread_reserve (mgt_param (snd (param_set_u thread_pool_reserve 3 defaults_state))) = 3 \<and>
   \<not> 5 \<le> wthread_reserve (mgt_param (snd (param_set_u thread_pool_reserve 3 defaults_state)))"
  by (simp add: set_reserve_defaults)

text \<open>C3 at the defaults, where the ceiling is 95.\<close>

theorem reserve_has_no_floor_witness:
  "table_ok defaults_state \<and>
   param_set_u thread_pool_reserve 4 defaults_state =
     (0, defaults_state\<lparr>mgt_param := (mgt_param defaults_state)\<lparr>wthread_reserve := 4\<rparr>\<rparr>) \<and>
   param_set_u thread_pool_reserve 96 defaults_state = (- 1, defaults_state) \<and>
   fst (param_set_u thread_pool_reserve 0 defaults_state) = 0"
proof -
  have m: "max_p (parspec_u defaults_state thread_pool_reserve) = Some 95"
    by (simp add: defaults_state_eq)
  show ?thesis
    using reserve_has_no_floor [OF table_ok_defaults_state, of 4]
      reserve_has_no_floor [OF table_ok_defaults_state, of 96] table_ok_defaults_state
    by (simp add: m)
qed

text \<open>
  C4. When \<open>thread_pool_min\<close> is successfully set to \<open>m\<close>, the maximum installed for
  \<open>thread_pool_reserve\<close> is \<open>m * 950 / 1000\<close> in \<open>unsigned\<close> arithmetic: the product is taken
  modulo \<open>2^32\<close> and divided by 1000, which is \<open>\<lfloor>0.95 * m\<rfloor>\<close> whenever \<open>m * 950 < 2^32\<close>.
  A reserve \<open>r\<close> is then accepted exactly when \<open>r \<le> m * 950 / 1000\<close>.
\<close>

theorem reserve_ceiling_installed:
  assumes "table_ok s" and "param_set_u thread_pool_min m s = (0, s')"
  shows "max_p (parspec_u s' thread_pool_reserve) = Some (m * 950 div 1000) \<and>
         unat (m * 950 div 1000) = unat m * 950 mod 2 ^ 32 div 1000 \<and>
         (unat m * 950 < 2 ^ 32 \<longrightarrow>
            int (unat (m * 950 div 1000)) = \<lfloor>0.95 * real (unat m)\<rfloor>) \<and>
         (\<forall>r. fst (param_set_u thread_pool_reserve r s') = 0 \<longleftrightarrow> r \<le> m * 950 div 1000)"
proof -
  have t': "table_ok s'"
    using table_ok_set_u [OF assms(1), of thread_pool_min m] assms(2) by simp
  have c: "max_p (parspec_u s' thread_pool_reserve) = Some (reserve_ceiling m)"
    using assms by (auto simp add: set_min split: if_splits)
  have u: "unat (m * 950 div 1000) = unat m * 950 mod 2 ^ 32 div 1000"
    using unat_reserve_ceiling [of m] by (simp add: reserve_ceiling_def)
  have f: "int (unat (m * 950 div 1000)) = \<lfloor>0.95 * real (unat m)\<rfloor>"
    if "unat m * 950 < 2 ^ 32"
    using that by (simp only: u floor_95 mod_less)
  have r: "fst (param_set_u thread_pool_reserve r s') = 0 \<longleftrightarrow> r \<le> m * 950 div 1000" for r
    using table_ok_min [OF t'] c
    by (auto simp add: set_plain [OF t'] out_of_range_def reserve_ceiling_def)
  show ?thesis
    using c u f r by (simp add: reserve_ceiling_def)
qed

text \<open>C4 at the defaults with \<open>m = 50\<close>: the ceiling is 47.\<close>

theorem reserve_ceiling_installed_witness:
  "let s' = snd (param_set_u thread_pool_min 50 defaults_state) in
     table_ok defaults_state \<and>
     fst (param_set_u thread_pool_min 50 defaults_state) = 0 \<and>
     max_p (parspec_u s' thread_pool_reserve) = Some 47 \<and>
     \<lfloor>0.95 * real (unat (50 :: unsigned))\<rfloor> = 47 \<and>
     fst (param_set_u thread_pool_reserve 47 s') = 0 \<and>
     fst (param_set_u thread_pool_reserve 48 s') \<noteq> 0"
proof -
  have f: "fst (param_set_u thread_pool_min 50 defaults_state) = 0"
    by (simp add: set_min_defaults)
  have c: "(50 :: unsigned) * 950 div 1000 = 47" by simp
  have n: "unat (50 :: unsigned) * 950 < 2 ^ 32" by simp
  show ?thesis
    using reserve_ceiling_installed [OF table_ok_defaults_state set_u_result [OF f]]
      f n table_ok_defaults_state
    by (simp add: Let_def c)
qed

subsection \<open>The number of pools\<close>

text \<open>
  C5, as the code has it. The setter of \<open>thread_pools\<close> is the plain \<open>tweak_uint\<close>: it
  compares the new value with the bounds of the entry (the minimum 1, and the maximum
  when one is installed) and not with the stored value. A value within the bounds is
  accepted and stored, whether it is above or below the current one.
\<close>

theorem pool_count_checked_against_bounds_only:
  assumes "table_ok s"
  shows "param_set_u thread_pools v s =
           (if v < 1 \<or> (case max_p (parspec_u s thread_pools) of
                           None \<Rightarrow> False | Some h \<Rightarrow> h < v)
            then (- 1, s)
            else (0, s\<lparr>mgt_param := (mgt_param s)\<lparr>wthread_pools := v\<rparr>\<rparr>))"
  using assms table_ok_min [of s]
  by (simp add: set_plain out_of_range_def split: option.splits)

text \<open>
  C5 as stated fails: at the defaults the pool count is 2, and the request to lower it
  to 1 is accepted and stored.
\<close>

theorem pool_count_lowered_counterexample:
  "wthread_pools (mgt_param defaults_state) = 2 \<and>
   fst (param_set_u thread_pools 1 defaults_state) = 0 \<and>
   wthread_pools (mgt_param (snd (param_set_u thread_pools 1 defaults_state))) = 1 \<and>
   wthread_pools (mgt_param (snd (param_set_u thread_pools 1 defaults_state)))
     < wthread_pools (mgt_param defaults_state)"
  by (simp add: set_plain [OF table_ok_defaults_state] out_of_range_def)
     (simp add: defaults_state_eq)

text \<open>C5 at the defaults: 1 is accepted, 0 is rejected.\<close>

theorem pool_count_checked_against_bounds_only_witness:
  "table_ok defaults_state \<and>
   wthread_pools (mgt_param defaults_state) = 2 \<and>
   param_set_u thread_pools 1 defaults_state =
     (0, defaults_state\<lparr>mgt_param := (mgt_param defaults_state)\<lparr>wthread_pools := 1\<rparr>\<rparr>) \<and>
   param_set_u thread_pools 0 defaults_state = (- 1, defaults_state)"
proof -
  have m: "max_p (parspec_u defaults_state thread_pools) = None"
    by (simp add: defaults_state_eq)
  have p: "wthread_pools (mgt_param defaults_state) = 2"
    by (simp add: defaults_state_eq)
  show ?thesis
    using pool_count_checked_against_bounds_only [OF table_ok_defaults_state, of 1]
      pool_count_checked_against_bounds_only [OF table_ok_defaults_state, of 0]
      table_ok_defaults_state p
    by (simp add: m)
qed

subsection \<open>The floor of the sizes\<close>

text \<open>
  C6. The setter of \<open>thread_pool_min\<close> rejects every value below 5, its static minimum,
  and a value it accepts is at least 5. After any sequence of updates \<open>wthread_min\<close> is the
  one before the sequence or at least 5. From a state where the bounds track the sizes
  and \<open>5 \<le> wthread_min \<le> wthread_max\<close>, every sequence of updates ends with
  \<open>wthread_min \<ge> 5 > 0\<close> and with \<open>wthread_max > 0\<close>, the minimum of \<open>thread_pool_max\<close>
  being the stored \<open>wthread_min\<close>.
\<close>

theorem min_threads_at_least_five:
  assumes "table_ok s"
  shows "(v < 5 \<longrightarrow> param_set_u thread_pool_min v s = (- 1, s)) \<and>
         (fst (param_set_u thread_pool_min v s) = 0 \<longrightarrow>
            5 \<le> wthread_min (mgt_param (snd (param_set_u thread_pool_min v s)))) \<and>
         (wthread_min (mgt_param (run us s)) = wthread_min (mgt_param s) \<or>
          5 \<le> wthread_min (mgt_param (run us s))) \<and>
         (bounds_track s \<and> sized s \<longrightarrow>
            5 \<le> wthread_min (mgt_param (run us s)) \<and>
            0 < wthread_min (mgt_param (run us s)) \<and>
            0 < wthread_max (mgt_param (run us s)) \<and>
            min_p (parspec_u (run us s) thread_pool_max) = Some (wthread_min (mgt_param (run us s))))"
proof -
  have a: "v < 5 \<longrightarrow> param_set_u thread_pool_min v s = (- 1, s)"
    by (simp add: set_min [OF assms] out_of_range_def)
  have b: "fst (param_set_u thread_pool_min v s) = 0 \<longrightarrow>
      5 \<le> wthread_min (mgt_param (snd (param_set_u thread_pool_min v s)))"
    by (simp add: set_min [OF assms] out_of_range_def not_less)
  have c: "5 \<le> wthread_min (mgt_param (run us s)) \<and>
      0 < wthread_min (mgt_param (run us s)) \<and>
      0 < wthread_max (mgt_param (run us s)) \<and>
      min_p (parspec_u (run us s) thread_pool_max) = Some (wthread_min (mgt_param (run us s)))"
    if "bounds_track s \<and> sized s"
  proof -
    have "pool_inv s"
      using assms that by (simp add: pool_inv_def)
    then have "pool_inv (run us s)"
      by (rule pool_inv_run)
    then have t: "bounds_track (run us s)" and z: "sized (run us s)"
      by (simp_all add: pool_inv_def)
    have five: "5 \<le> wthread_min (mgt_param (run us s))"
      and le: "wthread_min (mgt_param (run us s)) \<le> wthread_max (mgt_param (run us s))"
      using z by (simp_all add: sized_def)
    have "(0 :: unsigned) < 5" by simp
    then have "0 < wthread_min (mgt_param (run us s))"
      using five by (rule less_le_trans)
    moreover from this have "0 < wthread_max (mgt_param (run us s))"
      using le by (rule less_le_trans)
    ultimately show ?thesis
      using five t by (simp add: bounds_track_def)
  qed
  have d: "wthread_min (mgt_param (run us s)) = wthread_min (mgt_param s) \<or>
      5 \<le> wthread_min (mgt_param (run us s))"
    using assms by (rule min_run)
  show ?thesis using a b c d by blast
qed

text \<open>
  C6 at the defaults; of the three updates of the sequence the first two are rejected.
\<close>

theorem min_threads_at_least_five_witness:
  "table_ok defaults_state \<and> bounds_track defaults_state \<and> sized defaults_state \<and>
   param_set_u thread_pool_min 4 defaults_state = (- 1, defaults_state) \<and>
   fst (param_set_u thread_pool_min 5 defaults_state) = 0 \<and>
   5 \<le> wthread_min (mgt_param (snd (param_set_u thread_pool_min 5 defaults_state))) \<and>
   5 \<le> wthread_min (mgt_param
          (run [Set_u thread_pool_min 0, Set_u thread_pool_max 3, Set_u thread_pool_min 7]
             defaults_state)) \<and>
   0 < wthread_max (mgt_param
          (run [Set_u thread_pool_min 0, Set_u thread_pool_max 3, Set_u thread_pool_min 7]
             defaults_state))"
proof -
  have f: "fst (param_set_u thread_pool_min 5 defaults_state) = 0"
    by (simp add: set_min_defaults)
  have l: "(4 :: unsigned) < 5" by simp
  show ?thesis
    using min_threads_at_least_five [OF table_ok_defaults_state, of 4
        "[Set_u thread_pool_min 0, Set_u thread_pool_max 3, Set_u thread_pool_min 7]"]
      min_threads_at_least_five [OF table_ok_defaults_state, of 5 "[]"]
      f l table_ok_defaults_state bounds_track_defaults_state sized_defaults_state
    by simp
qed

subsection \<open>The delays\<close>

text \<open>
  C7, as the code has it. Each of the three delays is accepted from the minimum of its
  entry upwards, and has no maximum: \<open>thread_pool_add_delay\<close> from \<open>"0"\<close>,
  \<open>thread_pool_destroy_delay\<close> from \<open>"0.01"\<close> and \<open>thread_pool_fail_delay\<close> from \<open>"10e-3"\<close>.
  All three reject a negative value and keep the state; an accepted value is stored.
\<close>

theorem delay_setters_accept_from_table_minimum:
  assumes "table_ok s"
  shows "(fst (param_set_d thread_pool_add_delay v s) = 0 \<longleftrightarrow> 0 \<le> v) \<and>
         (fst (param_set_d thread_pool_destroy_delay v s) = 0 \<longleftrightarrow> 1 / 100 \<le> v) \<and>
         (fst (param_set_d thread_pool_fail_delay v s) = 0 \<longleftrightarrow> 1 / 100 \<le> v) \<and>
         (v < 0 \<longrightarrow>
            param_set_d thread_pool_add_delay v s = (- 1, s) \<and>
            param_set_d thread_pool_destroy_delay v s = (- 1, s) \<and>
            param_set_d thread_pool_fail_delay v s = (- 1, s)) \<and>
         (fst (param_set_d thread_pool_destroy_delay v s) = 0 \<longrightarrow>
            wthread_destroy_delay (mgt_param (snd (param_set_d thread_pool_destroy_delay v s))) = v)"
  by (auto simp add: set_d [OF assms] out_of_range_def)

text \<open>
  C7 as stated fails: 0 is not negative, and the setters of \<open>thread_pool_destroy_delay\<close>
  and \<open>thread_pool_fail_delay\<close> reject it.
\<close>

theorem zero_delay_rejected_counterexample:
  "(0 :: real) \<le> 0 \<and>
   param_set_d thread_pool_destroy_delay 0 defaults_state = (- 1, defaults_state) \<and>
   param_set_d thread_pool_fail_delay 0 defaults_state = (- 1, defaults_state)"
  by (simp add: set_d [OF table_ok_defaults_state] out_of_range_def)

text \<open>C7 at the defaults, at 0, 0.01, 0.005 and -1.\<close>

theorem delay_setters_accept_from_table_minimum_witness:
  "table_ok defaults_state \<and>
   fst (param_set_d thread_pool_add_delay 0 defaults_state) = 0 \<and>
   fst (param_set_d thread_pool_destroy_delay (1 / 100) defaults_state) = 0 \<and>
   fst (param_set_d thread_pool_fail_delay (5 / 1000) defaults_state) \<noteq> 0 \<and>
   param_set_d thread_pool_add_delay (- 1) defaults_state = (- 1, defaults_state) \<and>
   wthread_destroy_delay
     (mgt_param (snd (param_set_d thread_pool_destroy_delay (1 / 100) defaults_state))) = 1 / 100"
  using delay_setters_accept_from_table_minimum [OF table_ok_defaults_state, of 0]
    delay_setters_accept_from_table_minimum [OF table_ok_defaults_state, of "1 / 100"]
    delay_setters_accept_from_table_minimum [OF table_ok_defaults_state, of "5 / 1000"]
    delay_setters_accept_from_table_minimum [OF table_ok_defaults_state, of "- 1"]
    table_ok_defaults_state
  by simp

subsection \<open>At least one pool\<close>

text \<open>
  C8. The setter of \<open>thread_pools\<close> rejects every value below 1 and keeps the state; a
  value it accepts is at least 1. After any sequence of updates the pool count is the one
  before the sequence or at least 1, so a pool count of at least 1 stays at least 1.
\<close>

theorem pool_count_at_least_one:
  assumes "table_ok s"
  shows "(v < 1 \<longrightarrow> param_set_u thread_pools v s = (- 1, s)) \<and>
         (fst (param_set_u thread_pools v s) = 0 \<longrightarrow>
            1 \<le> wthread_pools (mgt_param (snd (param_set_u thread_pools v s)))) \<and>
         (wthread_pools (mgt_param (run us s)) = wthread_pools (mgt_param s) \<or>
          1 \<le> wthread_pools (mgt_param (run us s))) \<and>
         (1 \<le> wthread_pools (mgt_param s) \<longrightarrow>
            1 \<le> wthread_pools (mgt_param (run us s)))"
proof -
  have m: "min_p (parspec_u s thread_pools) = Some 1"
    using table_ok_min [OF assms] by simp
  have a: "v < 1 \<longrightarrow> param_set_u thread_pools v s = (- 1, s)"
    using m by (simp add: set_plain [OF assms] out_of_range_def)
  have b: "fst (param_set_u thread_pools v s) = 0 \<longrightarrow>
      1 \<le> wthread_pools (mgt_param (snd (param_set_u thread_pools v s)))"
    using m by (simp add: set_plain [OF assms] out_of_range_def one_le_word)
  have c: "wthread_pools (mgt_param (run us s)) = wthread_pools (mgt_param s) \<or>
      1 \<le> wthread_pools (mgt_param (run us s))"
    using assms by (rule pools_run)
  show ?thesis using a b c by auto
qed

text \<open>C8 at the defaults; the first update of the sequence is rejected.\<close>

theorem pool_count_at_least_one_witness:
  "table_ok defaults_state \<and>
   param_set_u thread_pools 0 defaults_state = (- 1, defaults_state) \<and>
   fst (param_set_u thread_pools 8 defaults_state) = 0 \<and>
   1 \<le> wthread_pools (mgt_param (snd (param_set_u thread_pools 8 defaults_state))) \<and>
   1 \<le> wthread_pools (mgt_param defaults_state) \<and>
   1 \<le> wthread_pools (mgt_param
          (run [Set_u thread_pools 0, Set_u thread_pools 4, Set_u thread_pools 1]
             defaults_state))"
proof -
  have f: "fst (param_set_u thread_pools 8 defaults_state) = 0"
    by (simp add: set_plain [OF table_ok_defaults_state] out_of_range_def)
       (simp add: defaults_state_eq)
  have p: "1 \<le> wthread_pools (mgt_param defaults_state)"
    by (simp add: defaults_state_eq)
  show ?thesis
    using pool_count_at_least_one [OF table_ok_defaults_state, of 0
        "[Set_u thread_pools 0, Set_u thread_pools 4, Set_u thread_pools 1]"]
      pool_count_at_least_one [OF table_ok_defaults_state, of 8 "[]"]
      f p table_ok_defaults_state
    by (simp del: run.simps)
qed

subsection \<open>What an update of the maximum leaves alone\<close>

text \<open>
  C9. A successful update of \<open>thread_pool_max\<close> to \<open>v\<close> stores \<open>v\<close> in \<open>wthread_max\<close> and
  sets the maximum of \<open>thread_pool_min\<close> to \<open>v\<close>, and that is all: every other stored
  value, every other entry and the other members of the entry of \<open>thread_pool_min\<close> are
  as before. The ceiling of the reserve is untouched, so a ceiling that reflects the
  stored \<open>wthread_min\<close> still does.
\<close>

theorem max_update_frame:
  assumes "table_ok s" and "param_set_u thread_pool_max v s = (0, s')"
  shows "s' = s\<lparr>mgt_param := (mgt_param s)\<lparr>wthread_max := v\<rparr>,
                 parspec_u := (parspec_u s)
                   (thread_pool_min := (parspec_u s thread_pool_min)\<lparr>max_p := Some v\<rparr>)\<rparr> \<and>
         wthread_min (mgt_param s') = wthread_min (mgt_param s) \<and>
         wthread_reserve (mgt_param s') = wthread_reserve (mgt_param s) \<and>
         max_p (parspec_u s' thread_pool_reserve) = max_p (parspec_u s thread_pool_reserve) \<and>
         min_p (parspec_u s' thread_pool_max) = min_p (parspec_u s thread_pool_max) \<and>
         min_p (parspec_u s' thread_pool_min) = min_p (parspec_u s thread_pool_min) \<and>
         (\<forall>n. n \<noteq> thread_pool_min \<longrightarrow> parspec_u s' n = parspec_u s n) \<and>
         parspec_d s' = parspec_d s \<and>
         (max_p (parspec_u s thread_pool_reserve)
            = Some (reserve_ceiling (wthread_min (mgt_param s))) \<longrightarrow>
          max_p (parspec_u s' thread_pool_reserve)
            = Some (reserve_ceiling (wthread_min (mgt_param s'))))"
proof -
  have e: "s' = s\<lparr>mgt_param := (mgt_param s)\<lparr>wthread_max := v\<rparr>,
                 parspec_u := (parspec_u s)
                   (thread_pool_min := (parspec_u s thread_pool_min)\<lparr>max_p := Some v\<rparr>)\<rparr>"
    using assms by (simp add: set_max split: if_splits)
  show ?thesis
    by (rule conjI, rule e) (simp add: e)
qed

text \<open>C9 at the defaults, lowering \<open>thread_pool_max\<close> from 5000 to 200.\<close>

theorem max_update_frame_witness:
  "let s' = snd (param_set_u thread_pool_max 200 defaults_state) in
     table_ok defaults_state \<and>
     fst (param_set_u thread_pool_max 200 defaults_state) = 0 \<and>
     wthread_max (mgt_param s') = 200 \<and>
     wthread_min (mgt_param s') = 100 \<and>
     max_p (parspec_u s' thread_pool_min) = Some 200 \<and>
     max_p (parspec_u s' thread_pool_reserve) = Some 95 \<and>
     reserve_ceiling (wthread_min (mgt_param s')) = 95 \<and>
     parspec_u s' thread_pool_reserve = parspec_u defaults_state thread_pool_reserve"
proof -
  have f: "fst (param_set_u thread_pool_max 200 defaults_state) = 0"
    by (simp add: set_max [OF table_ok_defaults_state] out_of_range_def)
       (simp add: defaults_state_eq)
  have d: "wthread_min (mgt_param defaults_state) = 100"
    "max_p (parspec_u defaults_state thread_pool_reserve) = Some 95"
    "reserve_ceiling 100 = 95"
    by (simp_all add: defaults_state_eq reserve_ceiling_def)
  show ?thesis
    using max_update_frame [OF table_ok_defaults_state set_u_result [OF f]]
      f d table_ok_defaults_state
    by (simp add: Let_def)
qed

subsection \<open>The ceiling of the reserve at small minima\<close>

lemma reserve_ceiling_lt_5:
  assumes "5 \<le> m" and "unat m * 950 < 2 ^ 32"
  shows "reserve_ceiling m < 5 \<longleftrightarrow> m = 5"
proof -
  have "unat (5 :: unsigned) \<le> unat m"
    using assms(1) by (simp only: word_le_nat_alt)
  then have five: "5 \<le> unat m" by simp
  have u: "unat (reserve_ceiling m) = unat m * 950 div 1000"
    using assms(2) by (simp add: unat_reserve_ceiling)
  have "reserve_ceiling m < 5 \<longleftrightarrow> unat (reserve_ceiling m) < unat (5 :: unsigned)"
    by (simp only: word_less_nat_alt)
  also have "\<dots> \<longleftrightarrow> unat m * 950 div 1000 < 5"
    by (simp add: u)
  also have "\<dots> \<longleftrightarrow> unat m = 5"
    using five by arith
  also have "\<dots> \<longleftrightarrow> unat m = unat (5 :: unsigned)"
    by simp
  also have "\<dots> \<longleftrightarrow> m = 5"
    by (simp only: word_unat_eq_iff)
  finally show ?thesis .
qed

text \<open>
  C10, as the code has it. When \<open>thread_pool_min\<close> is successfully set to \<open>m\<close> with
  \<open>m * 950 < 2^32\<close>, the ceiling \<open>m * 950 / 1000\<close> installed for the reserve is below 5
  exactly when \<open>m = 5\<close>. At \<open>m = 5\<close> the ceiling is 4, and a reserve is then accepted
  exactly up to 4.
\<close>

theorem reserve_ceiling_below_five_only_at_five:
  assumes "table_ok s" and "param_set_u thread_pool_min m s = (0, s')"
    and "unat m * 950 < 2 ^ 32"
  shows "max_p (parspec_u s' thread_pool_reserve) = Some (reserve_ceiling m) \<and>
         (reserve_ceiling m < 5 \<longleftrightarrow> m = 5) \<and>
         (m = 5 \<longrightarrow> reserve_ceiling m = 4 \<and>
            (\<forall>r. fst (param_set_u thread_pool_reserve r s') = 0 \<longleftrightarrow> r \<le> 4))"
proof -
  have t': "table_ok s'"
    using table_ok_set_u [OF assms(1), of thread_pool_min m] assms(2) by simp
  have c: "max_p (parspec_u s' thread_pool_reserve) = Some (reserve_ceiling m)"
    using assms by (auto simp add: set_min split: if_splits)
  have "5 \<le> m"
    using assms(1,2) by (auto simp add: set_min out_of_range_def split: if_splits)
  then have l: "reserve_ceiling m < 5 \<longleftrightarrow> m = 5"
    using assms(3) by (rule reserve_ceiling_lt_5)
  have r: "fst (param_set_u thread_pool_reserve r s') = 0 \<longleftrightarrow> r \<le> reserve_ceiling m" for r
    using table_ok_min [OF t'] c
    by (auto simp add: set_plain [OF t'] out_of_range_def)
  have four: "reserve_ceiling 5 = 4"
    by (simp add: reserve_ceiling_def)
  show ?thesis
    using c l r four by auto
qed

text \<open>
  C10 as stated fails in its general part: 6 lies in \<open>[5, 9]\<close>, and setting
  \<open>thread_pool_min\<close> to 6 installs the ceiling 5, which is not below 5; a reserve of 5 is
  then accepted.
\<close>

theorem reserve_ceiling_at_six_counterexample:
  "let s' = snd (param_set_u thread_pool_min 6 defaults_state) in
     (5 :: unsigned) \<le> 6 \<and> (6 :: unsigned) \<le> 9 \<and>
     fst (param_set_u thread_pool_min 6 defaults_state) = 0 \<and>
     max_p (parspec_u s' thread_pool_reserve) = Some 5 \<and>
     \<not> reserve_ceiling 6 < 5 \<and>
     fst (param_set_u thread_pool_reserve 5 s') = 0"
proof -
  have t: "table_ok (snd (param_set_u thread_pool_min 6 defaults_state))"
    by (rule table_ok_set_u [OF table_ok_defaults_state])
  have m: "min_p (parspec_u (snd (param_set_u thread_pool_min 6 defaults_state))
             thread_pool_reserve) = None"
    using table_ok_min [OF t] by simp
  show ?thesis
    by (simp add: Let_def set_plain [OF t] out_of_range_def m)
       (simp add: set_min_defaults reserve_ceiling_def)
qed

text \<open>C10 at the defaults with \<open>m = 5\<close>.\<close>

theorem reserve_ceiling_below_five_only_at_five_witness:
  "let s' = snd (param_set_u thread_pool_min 5 defaults_state) in
     table_ok defaults_state \<and>
     fst (param_set_u thread_pool_min 5 defaults_state) = 0 \<and>
     unat (5 :: unsigned) * 950 < 2 ^ 32 \<and>
     max_p (parspec_u s' thread_pool_reserve) = Some 4 \<and>
     fst (param_set_u thread_pool_reserve 4 s') = 0 \<and>
     fst (param_set_u thread_pool_reserve 5 s') \<noteq> 0"
proof -
  have f: "fst (param_set_u thread_pool_min 5 defaults_state) = 0"
    by (simp add: set_min_defaults)
  have n: "unat (5 :: unsigned) * 950 < 2 ^ 32" by simp
  show ?thesis
    using reserve_ceiling_below_five_only_at_five
        [OF table_ok_defaults_state set_u_result [OF f] n]
      f n table_ok_defaults_state
    by (simp add: Let_def)
qed

end
